theory Spec2Isabelle
  imports Complex_Main "HOL-Library.Word"
begin

section \<open>Threshold selection of \<open>skimage/filter/thresholding.py\<close>\<close>

text \<open>
  The module computes binarisation thresholds: three global selectors that read a
  histogram (Otsu, Yen, ISODATA) and local engines that compare every pixel with a
  threshold surface (adaptive, Niblack, Sauvola with its variants).

  Numbers. The arrays of the source hold IEEE floating-point values. The embedding
  keeps the special values that division by zero, logarithm and square root produce
  (\<open>nan\<close>, \<open>+inf\<close>, \<open>-inf\<close>) and computes on finite values with exact real arithmetic:
  rounding, overflow and the sign of zero are outside the model.
\<close>

subsection \<open>Errors\<close>

datatype error = ValueError | IndexError | ZeroDivisionError

subsection \<open>Floating-point values with their special values\<close>

datatype npfloat = Fin real | PInf | MInf | NaN

fun fneg :: "npfloat \<Rightarrow> npfloat" where
  "fneg (Fin x) = Fin (- x)"
| "fneg PInf = MInf"
| "fneg MInf = PInf"
| "fneg NaN = NaN"

fun fadd :: "npfloat \<Rightarrow> npfloat \<Rightarrow> npfloat" where
  "fadd NaN _ = NaN"
| "fadd _ NaN = NaN"
| "fadd (Fin x) (Fin y) = Fin (x + y)"
| "fadd PInf MInf = NaN"
| "fadd MInf PInf = NaN"
| "fadd PInf _ = PInf"
| "fadd _ PInf = PInf"
| "fadd MInf _ = MInf"
| "fadd _ MInf = MInf"

definition fsub :: "npfloat \<Rightarrow> npfloat \<Rightarrow> npfloat" where
  "fsub a b = fadd a (fneg b)"

text \<open>The sign of a value that is not \<open>nan\<close>: 1, 0 or -1.\<close>

fun fsign :: "npfloat \<Rightarrow> int" where
  "fsign (Fin x) = (if x > 0 then 1 else if x < 0 then - 1 else 0)"
| "fsign PInf = 1"
| "fsign MInf = - 1"
| "fsign NaN = 0"

definition inf_of_sign :: "int \<Rightarrow> npfloat" where
  "inf_of_sign s = (if s > 0 then PInf else if s < 0 then MInf else NaN)"

fun fmul :: "npfloat \<Rightarrow> npfloat \<Rightarrow> npfloat" where
  "fmul NaN _ = NaN"
| "fmul _ NaN = NaN"
| "fmul (Fin x) (Fin y) = Fin (x * y)"
| "fmul a b = inf_of_sign (fsign a * fsign b)"

fun fdiv :: "npfloat \<Rightarrow> npfloat \<Rightarrow> npfloat" where
  "fdiv NaN _ = NaN"
| "fdiv _ NaN = NaN"
| "fdiv (Fin x) (Fin y) = (if y = 0 then inf_of_sign (fsign (Fin x)) else Fin (x / y))"
| "fdiv (Fin x) _ = Fin 0"
| "fdiv a (Fin y) = inf_of_sign (fsign a * (if y < 0 then - 1 else 1))"
| "fdiv _ _ = NaN"

definition fsq :: "npfloat \<Rightarrow> npfloat" where
  \<comment> \<open>\<open>x ** 2\<close>\<close>
  "fsq x = fmul x x"

definition finv :: "npfloat \<Rightarrow> npfloat" where
  \<comment> \<open>\<open>x ** -1\<close>\<close>
  "finv x = fdiv (Fin 1) x"

fun fsqrt :: "npfloat \<Rightarrow> npfloat" where
  "fsqrt (Fin x) = (if x < 0 then NaN else Fin (sqrt x))"
| "fsqrt PInf = PInf"
| "fsqrt MInf = NaN"
| "fsqrt NaN = NaN"

fun fexp :: "npfloat \<Rightarrow> npfloat" where
  "fexp (Fin x) = Fin (exp x)"
| "fexp PInf = PInf"
| "fexp MInf = Fin 0"
| "fexp NaN = NaN"

fun flog :: "npfloat \<Rightarrow> npfloat" where
  "flog (Fin x) = (if x < 0 then NaN else if x = 0 then MInf else Fin (ln x))"
| "flog PInf = PInf"
| "flog MInf = NaN"
| "flog NaN = NaN"

text \<open>Comparisons: every comparison with \<open>nan\<close> is false.\<close>

fun fless :: "npfloat \<Rightarrow> npfloat \<Rightarrow> bool" where
  "fless NaN _ = False"
| "fless _ NaN = False"
| "fless (Fin x) (Fin y) = (x < y)"
| "fless MInf MInf = False"
| "fless MInf _ = True"
| "fless _ MInf = False"
| "fless PInf _ = False"
| "fless _ PInf = True"

fun fle :: "npfloat \<Rightarrow> npfloat \<Rightarrow> bool" where
  "fle NaN _ = False"
| "fle _ NaN = False"
| "fle a b = (a = b \<or> fless a b)"

definition fgreater :: "npfloat \<Rightarrow> npfloat \<Rightarrow> bool" where
  "fgreater a b = fless b a"

subsection \<open>Array primitives\<close>

text \<open>\<open>np.cumsum\<close>: the running sums, in the array's own arithmetic.\<close>

fun cumsum_by :: "('a \<Rightarrow> 'a \<Rightarrow> 'a) \<Rightarrow> 'a \<Rightarrow> 'a list \<Rightarrow> 'a list" where
  "cumsum_by f acc [] = []"
| "cumsum_by f acc (x # xs) = f acc x # cumsum_by f (f acc x) xs"

definition cumsum :: "real list \<Rightarrow> real list" where
  "cumsum xs = cumsum_by (+) 0 xs"

definition fcumsum :: "npfloat list \<Rightarrow> npfloat list" where
  "fcumsum xs = cumsum_by fadd (Fin 0) xs"

text \<open>
  \<open>np.argmax\<close> on a float array: an empty array raises \<open>ValueError\<close>; the scan keeps the
  first element that is not \<open>\<le>\<close> the running maximum, and stops at the first \<open>nan\<close>,
  which counts as maximal.
\<close>

fun argmax_from :: "npfloat \<Rightarrow> nat \<Rightarrow> nat \<Rightarrow> npfloat list \<Rightarrow> nat" where
  "argmax_from mp max_ind i [] = max_ind"
| "argmax_from mp max_ind i (x # xs) =
     (if \<not> fle x mp
      then (if x = NaN then i else argmax_from x i (Suc i) xs)
      else argmax_from mp max_ind (Suc i) xs)"

definition argmax :: "npfloat list \<Rightarrow> error + nat" where
  "argmax vs =
     (case vs of
        [] \<Rightarrow> Inl ValueError
      | v # rest \<Rightarrow> if v = NaN then Inr 0 else Inr (argmax_from v 0 1 rest))"

text \<open>Indexing with a non-negative index: out of range raises \<open>IndexError\<close>.\<close>

definition np_index :: "'a list \<Rightarrow> nat \<Rightarrow> error + 'a" where
  "np_index xs i = (if i < length xs then Inr (xs ! i) else Inl IndexError)"

text \<open>\<open>np.round\<close>: to the nearest integer, a tie to the even one.\<close>

definition np_round :: "real \<Rightarrow> int" where
  "np_round x =
     (let f = \<lfloor>x\<rfloor>
      in if x - of_int f < 1 / 2 then f
         else if x - of_int f > 1 / 2 then f + 1
         else if even f then f else f + 1)"

text \<open>
  \<open>np.ma.divide\<close>: the quotient where the divisor is not zero, a masked entry
  (\<open>None\<close>) where it is.
\<close>

definition ma_divide :: "real \<Rightarrow> real \<Rightarrow> real option" where
  "ma_divide a b = (if b = 0 then None else Some (a / b))"

definition ma_mean2 :: "real option \<Rightarrow> real option \<Rightarrow> real option" where
  \<comment> \<open>\<open>(l + h) / 2.0\<close> on masked entries\<close>
  "ma_mean2 l h =
     (case l of None \<Rightarrow> None
      | Some a \<Rightarrow> (case h of None \<Rightarrow> None | Some b \<Rightarrow> Some ((a + b) / 2)))"

text \<open>
  \<open>np.nonzero(a)[0][0]\<close> on a masked boolean array: the first index whose entry is
  true and not masked; \<open>IndexError\<close> when there is none.
\<close>

fun first_nonzero_from :: "nat \<Rightarrow> bool list \<Rightarrow> error + nat" where
  "first_nonzero_from i [] = Inl IndexError"
| "first_nonzero_from i (b # bs) = (if b then Inr i else first_nonzero_from (Suc i) bs)"

definition first_nonzero :: "bool list \<Rightarrow> error + nat" where
  "first_nonzero bs = first_nonzero_from 0 bs"

text \<open>
  \<open>np.arange(n, dtype=np.uint8)\<close>: the ordinals \<open>0, 1, ...\<close> as 8-bit unsigned integers.
\<close>

definition arange_uint8 :: "nat \<Rightarrow> 8 word list" where
  "arange_uint8 n = map of_nat [0..<n]"

subsection \<open>The histogram\<close>

text \<open>
  \<open>skimage.exposure.histogram\<close> is an external collaborator: it returns two parallel
  arrays of the same length, the counts and the bin centres. The selectors are modelled
  on its result, a list of bins (count, centre).
\<close>

type_synonym histogram = "(nat \<times> real) list"

definition counts :: "histogram \<Rightarrow> npfloat list" where
  "counts hg = map (\<lambda>b. Fin (real (fst b))) hg"

definition centers :: "histogram \<Rightarrow> real list" where
  "centers hg = map snd hg"

subsection \<open>Global selectors\<close>

definition threshold_otsu :: "histogram \<Rightarrow> error + real" where
  "threshold_otsu hg =
     (let hist = counts hg;
          bin_centers = centers hg;
          weight1 = fcumsum hist;
          weight2 = rev (fcumsum (rev hist));
          mean1 = map2 fdiv (fcumsum (map2 fmul hist (map Fin bin_centers))) weight1;
          mean2 = rev (map2 fdiv (fcumsum (rev (map2 fmul hist (map Fin bin_centers))))
                                 (rev weight2));
          variance12 = map2 fmul (map2 fmul (butlast weight1) (tl weight2))
                                 (map fsq (map2 fsub (butlast mean1) (tl mean2)))
      in case argmax variance12 of
           Inl e \<Rightarrow> Inl e
         | Inr idx \<Rightarrow> np_index (butlast bin_centers) idx)"

definition threshold_yen :: "histogram \<Rightarrow> error + real" where
  "threshold_yen hg =
     (let hist = counts hg;
          bin_centers = centers hg
      in if length bin_centers = 1 then np_index bin_centers 0
         else
           let total = Fin (real (sum_list (map fst hg)));
               pmf = map (\<lambda>c. fdiv c total) hist;
               P1 = fcumsum pmf;
               P1_sq = fcumsum (map fsq pmf);
               P2_sq = rev (fcumsum (map fsq (rev pmf)));
               crit = map flog
                        (map2 fmul (map finv (map2 fmul (butlast P1_sq) (tl P2_sq)))
                                   (map fsq (map2 fmul (butlast P1)
                                                       (map (fsub (Fin 1)) (butlast P1)))))
           in case argmax crit of
                Inl e \<Rightarrow> Inl e
              | Inr idx \<Rightarrow> np_index bin_centers idx)"

definition isodata_match :: "real option \<Rightarrow> 8 word \<Rightarrow> bool" where
  \<comment> \<open>one entry of \<open>allmean.round() == binnums\<close>; a masked entry does not count\<close>
  "isodata_match m b = (case m of None \<Rightarrow> False | Some v \<Rightarrow> np_round v = int (unat b))"

definition threshold_isodata :: "histogram \<Rightarrow> error + real" where
  "threshold_isodata hg =
     (let bin_centers = centers hg
      in if length bin_centers = 1 then np_index bin_centers 0
         else
           let pmf = map (\<lambda>b. real (fst b)) hg;
               cpmfl = cumsum pmf;
               cpmfh = rev (cumsum (rev pmf));
               binnums = arange_uint8 (length pmf);
               l = map2 ma_divide
                     (cumsum (map2 (\<lambda>p b. p * real (unat b)) pmf binnums)) cpmfl;
               h = map2 ma_divide
                     (rev (cumsum (map2 (\<lambda>p b. p * real (unat b)) (rev pmf) (rev binnums))))
                     cpmfh;
               allmean = map2 ma_mean2 l h
           in case first_nonzero (map2 isodata_match allmean binnums) of
                Inl e \<Rightarrow> Inl e
              | Inr idx \<Rightarrow> np_index bin_centers idx)"

subsection \<open>Images, surfaces and effects\<close>

text \<open>
  An image is a dense two-dimensional array of finite intensities, a list of rows.
  The surfaces computed from it (mean, standard deviation, threshold) hold floating-point
  values; the classification is an array of booleans.
\<close>

type_synonym image = "real list list"
type_synonym surface = "npfloat list list"

definition nrows :: "'a list list \<Rightarrow> nat" where
  "nrows a = length a"

definition ncols :: "'a list list \<Rightarrow> nat" where
  \<comment> \<open>\<open>a.shape[1]\<close>\<close>
  "ncols a = (case a of [] \<Rightarrow> 0 | r # _ \<Rightarrow> length r)"

text \<open>
  What a call does before it returns or raises is kept as a log of the arrays it has
  built: an allocation (\<open>np.zeros\<close>, \<open>np.ones\<close>, \<open>np.zeros_like\<close>, \<open>np.vstack\<close>,
  \<open>np.hstack\<close>), an integral image, a convolution, a call of an external window filter.
  A computation returns its log and either an error or a value.
\<close>

datatype effect = Alloc_array | Integral_image | Convolution | Window_filter

type_synonym 'a eff = "effect list \<times> (error + 'a)"

definition done_eff :: "effect list \<Rightarrow> 'a \<Rightarrow> 'a eff" where
  "done_eff ev a = (ev, Inr a)"

definition raise_eff :: "effect list \<Rightarrow> error \<Rightarrow> 'a eff" where
  "raise_eff ev e = (ev, Inl e)"

definition bind_eff :: "'a eff \<Rightarrow> ('a \<Rightarrow> 'b eff) \<Rightarrow> 'b eff" where
  "bind_eff m f =
     (case m of
        (ev, Inl e) \<Rightarrow> (ev, Inl e)
      | (ev, Inr a) \<Rightarrow> (case f a of (ev', r) \<Rightarrow> (ev @ ev', r)))"

subsection \<open>Integral image and convolution\<close>

definition integral_image :: "image \<Rightarrow> real list list" where
  \<comment> \<open>Modelled from the spec: \<open>skimage.transform.integral_image\<close> is not among the
      sources. Cell (i, j) holds the sum of all input cells with row \<open>\<le> i\<close> and
      column \<open>\<le> j\<close>; the result has the shape of the input.\<close>
  "integral_image img =
     map (\<lambda>i. map (\<lambda>j. sum_list (map (\<lambda>row. sum_list (take (Suc j) row)) (take (Suc i) img)))
                [0..<ncols img])
         [0..<nrows img]"

definition zeros2 :: "nat \<Rightarrow> nat \<Rightarrow> real list list" where
  "zeros2 h w = replicate h (replicate w 0)"

definition ones2 :: "nat \<Rightarrow> nat \<Rightarrow> real list list" where
  "ones2 h w = replicate h (replicate w 1)"

definition set2 :: "real list list \<Rightarrow> nat \<Rightarrow> nat \<Rightarrow> real \<Rightarrow> real list list" where
  \<comment> \<open>\<open>a[i, j] = v\<close>\<close>
  "set2 a i j v = a[i := (a ! i)[j := v]]"

text \<open>
  \<open>scipy.ndimage.convolve\<close> on a two-dimensional array, as its documentation defines it:
  the output has the shape of the input, and
  \<open>out[i, j] = \<Sum>a b. weights[a, b] * input[i + kh div 2 - a, j + kw div 2 - b]\<close>
  for a \<open>kh \<times> kw\<close> kernel (the kernel is mirrored about its centre, which sits at index
  \<open>size div 2\<close> on each axis). A read outside the input is answered by the mode:
  \<open>'nearest'\<close> repeats the edge value, \<open>'constant'\<close> gives 0.
\<close>

datatype mode = Nearest | Constant

definition ext_read :: "mode \<Rightarrow> real list list \<Rightarrow> int \<Rightarrow> int \<Rightarrow> real" where
  "ext_read md a i j =
     (let h = int (nrows a); w = int (ncols a)
      in case md of
           Nearest \<Rightarrow> a ! nat (max 0 (min (h - 1) i)) ! nat (max 0 (min (w - 1) j))
         | Constant \<Rightarrow> if 0 \<le> i \<and> i < h \<and> 0 \<le> j \<and> j < w then a ! nat i ! nat j else 0)"

definition convolve_at :: "real list list \<Rightarrow> real list list \<Rightarrow> mode \<Rightarrow> nat \<Rightarrow> nat \<Rightarrow> real" where
  "convolve_at inp weights md i j =
     (let kh = nrows weights; kw = ncols weights
      in sum_list (map (\<lambda>a. sum_list (map (\<lambda>b.
           weights ! a ! b *
           ext_read md inp (int i + int (kh div 2) - int a) (int j + int (kw div 2) - int b))
           [0..<kw])) [0..<kh]))"

definition convolve :: "real list list \<Rightarrow> real list list \<Rightarrow> mode \<Rightarrow> real list list" where
  "convolve inp weights md =
     map (\<lambda>i. map (\<lambda>j. convolve_at inp weights md i j) [0..<ncols inp]) [0..<nrows inp]"

text \<open>Elementwise operations on arrays of one shape.\<close>

definition zip2 :: "('a \<Rightarrow> 'b \<Rightarrow> 'c) \<Rightarrow> 'a list list \<Rightarrow> 'b list list \<Rightarrow> 'c list list" where
  "zip2 f a b = map2 (map2 f) a b"

definition map2d :: "('a \<Rightarrow> 'b) \<Rightarrow> 'a list list \<Rightarrow> 'b list list" where
  "map2d f a = map (map f) a"

subsection \<open>Local statistics\<close>

definition make_kern :: "nat \<Rightarrow> real list list" where
  \<comment> \<open>lines 299 to 301, for a kernel of side \<open>n = w + 1 > 0\<close>: the four corners\<close>
  "make_kern n =
     set2 (set2 (set2 (set2 (zeros2 n n) 0 0 1) (n - 1) (n - 1) 1) 0 (n - 1) (- 1)) (n - 1) 0 (- 1)"

definition mean_std :: "image \<Rightarrow> int \<Rightarrow> (surface \<times> surface) eff" where
  "mean_std img w =
     (if w = 1 \<or> w mod 2 = 0 then raise_eff [] ValueError
      else
        let I0 = integral_image img;
            I1 = replicate (ncols I0) 0 # I0;
            I = map (\<lambda>r. 0 # r) I1;
            ev = [Integral_image, Alloc_array, Alloc_array, Alloc_array, Alloc_array]
        in if w + 1 < 0 then raise_eff ev ValueError
           else if w + 1 = 0 then raise_eff (ev @ [Alloc_array]) IndexError
           else
             let kern = make_kern (nat (w + 1));
                 w2 = convolve (ones2 (nrows img) (ncols img)) (ones2 (nat w) (nat w)) Constant;
                 m = zip2 (\<lambda>a b. fdiv (Fin a) (Fin b))
                       (butlast (map butlast (convolve I kern Nearest))) w2;
                 g = img;
                 g2 = map2d (\<lambda>x. x * x) g;
                 m2 = map2d fsq m;
                 sum_g2 = convolve g2 (ones2 (nat w) (nat w)) Constant;
                 sum_m2 = zip2 (\<lambda>a b. fmul (Fin a) b) w2 m2;
                 s2 = zip2 (\<lambda>a b. fdiv a (Fin b)) (zip2 (\<lambda>a b. fsub (Fin a) b) sum_g2 sum_m2) w2;
                 s = map2d fsqrt s2
             in done_eff (ev @ [Alloc_array, Alloc_array, Alloc_array, Convolution, Convolution,
                                Alloc_array, Convolution])
                         (m, s))"

subsection \<open>Niblack and Sauvola\<close>

definition classify :: "image \<Rightarrow> surface \<Rightarrow> real \<Rightarrow> bool list list" where
  \<comment> \<open>\<open>image > (t - offset)\<close>\<close>
  "classify img t offset = zip2 (\<lambda>px th. fgreater (Fin px) (fsub th (Fin offset))) img t"

definition threshold_niblack :: "image \<Rightarrow> int \<Rightarrow> real \<Rightarrow> real \<Rightarrow> (bool list list) eff" where
  "threshold_niblack img w k offset =
     bind_eff (mean_std img w) (\<lambda>(m, s).
       let t = zip2 (\<lambda>m s. fsub m (fmul (Fin k) s)) m s
       in done_eff [] (classify img t offset))"

text \<open>
  \<open>a.max()\<close> and \<open>a.min()\<close> over a whole array: an empty array raises \<open>ValueError\<close>, and
  a \<open>nan\<close> anywhere makes the result \<open>nan\<close>.
\<close>

definition fmax2 :: "npfloat \<Rightarrow> npfloat \<Rightarrow> npfloat" where
  "fmax2 a b = (if a = NaN \<or> b = NaN then NaN else if fless a b then b else a)"

definition surface_max :: "surface \<Rightarrow> error + npfloat" where
  "surface_max s =
     (case concat s of [] \<Rightarrow> Inl ValueError | x # xs \<Rightarrow> Inr (fold (\<lambda>y acc. fmax2 acc y) xs x))"

definition image_min :: "image \<Rightarrow> error + real" where
  "image_min img =
     (case concat img of [] \<Rightarrow> Inl ValueError | x # xs \<Rightarrow> Inr (fold (\<lambda>y acc. min acc y) xs x))"

definition lift_eff :: "error + 'a \<Rightarrow> 'a eff" where
  "lift_eff r = ([], r)"

definition threshold_sauvola ::
  "image \<Rightarrow> string \<Rightarrow> int \<Rightarrow> real \<Rightarrow> real \<Rightarrow> real \<Rightarrow> real \<Rightarrow> real \<Rightarrow> (bool list list) eff" where
  "threshold_sauvola img method w k r offset p q =
     bind_eff (done_eff [Alloc_array] ()) (\<lambda>_.
     bind_eff (mean_std img w) (\<lambda>(m, s).
       if method = ''sauvola'' then
         let t = zip2 (\<lambda>m s. fmul m (fadd (Fin 1) (fmul (Fin k) (fsub (fdiv s (Fin r)) (Fin 1))))) m s
         in done_eff [] (classify img t offset)
       else if method = ''wolf'' then
         bind_eff (lift_eff (surface_max s)) (\<lambda>R.
         bind_eff (lift_eff (image_min img)) (\<lambda>M.
           let t = zip2 (\<lambda>m s. fadd (fadd (fmul (Fin (1 - k)) m) (Fin (k * M)))
                                    (fmul (fmul (Fin k) (fdiv s R)) (fsub m (Fin M)))) m s
           in done_eff [] (classify img t offset)))
       else if method = ''phansalkar'' then
         let img' = map2d (\<lambda>x. x / 255) img
         in bind_eff (mean_std img' w) (\<lambda>(m, s).
              let rn = r / 255;
                  t = zip2 (\<lambda>m s. fmul m (fadd (fadd (Fin 1) (fmul (Fin p) (fexp (fmul (Fin (- q)) m))))
                                               (fmul (Fin k) (fsub (fdiv s (Fin rn)) (Fin 1))))) m s
              in done_eff [] (classify img' t offset))
       else raise_eff [] ValueError))"

subsection \<open>The statistic-filter adaptive threshold\<close>

text \<open>
  The window filters of \<open>scipy.ndimage\<close> are external: \<open>threshold_adaptive\<close> only
  dispatches to them. They are parameters of the model, each returning the filtered
  surface or the error it raises.
\<close>

datatype param = Number real | Callback "real list \<Rightarrow> real"

record ndimage =
  generic_filter :: "image \<Rightarrow> param option \<Rightarrow> int \<Rightarrow> string \<Rightarrow> error + surface"
  gaussian_filter :: "image \<Rightarrow> param \<Rightarrow> string \<Rightarrow> error + surface"
  convolve1d :: "surface \<Rightarrow> real list \<Rightarrow> nat \<Rightarrow> string \<Rightarrow> error + surface"
  median_filter :: "image \<Rightarrow> int \<Rightarrow> string \<Rightarrow> error + surface"

definition filter_eff :: "error + surface \<Rightarrow> surface eff" where
  "filter_eff r = ([Window_filter], r)"

definition threshold_adaptive ::
  "ndimage \<Rightarrow> image \<Rightarrow> int \<Rightarrow> string \<Rightarrow> real \<Rightarrow> string \<Rightarrow> param option \<Rightarrow>
   (bool list list) eff" where
  "threshold_adaptive nd img block_size method offset md prm =
     (let thresh_image = map2d Fin (zeros2 (nrows img) (ncols img));
          (ev, r) =
            (if method = ''generic'' then
               filter_eff (generic_filter nd img prm block_size md)
             else if method = ''gaussian'' then
               let sigma = (case prm of None \<Rightarrow> Number ((real_of_int block_size - 1) / 6)
                                      | Some v \<Rightarrow> v)
               in filter_eff (gaussian_filter nd img sigma md)
             else if method = ''mean'' then
               if block_size = 0 then ([], Inl ZeroDivisionError)
               else if block_size < 0 then ([], Inl ValueError)
               else
                 let mask = replicate (nat block_size) (1 / real_of_int block_size)
                 in (case convolve1d nd (map2d Fin img) mask 0 md of
                       Inl e \<Rightarrow> ([Alloc_array, Window_filter], Inl e)
                     | Inr t1 \<Rightarrow>
                        (case convolve1d nd t1 mask 1 md of
                           Inl e \<Rightarrow> ([Alloc_array, Window_filter, Window_filter], Inl e)
                         | Inr t2 \<Rightarrow> ([Alloc_array, Window_filter, Window_filter], Inr t2)))
             else if method = ''median'' then
               filter_eff (median_filter nd img block_size md)
             else ([], Inr thresh_image))
      in (Alloc_array # ev,
          case r of Inl e \<Rightarrow> Inl e | Inr t \<Rightarrow> Inr (classify img t offset)))"

subsection \<open>Comparing two outcomes\<close>

text \<open>
  Two outcomes of a local engine are related when both are the same error, or both are
  classifications of one shape and every pixel that is foreground in the first is
  foreground in the second.
\<close>

definition same_or_grows :: "error + bool list list \<Rightarrow> error + bool list list \<Rightarrow> bool" where
  "same_or_grows r1 r2 =
     (case r1 of
        Inl e1 \<Rightarrow> r2 = Inl e1
      | Inr c1 \<Rightarrow> (case r2 of Inl _ \<Rightarrow> False
                  | Inr c2 \<Rightarrow> list_all2 (list_all2 (\<longrightarrow>)) c1 c2))"

subsection \<open>The maximum of a float array\<close>


subsection \<open>Otsu's criterion in the words of the specification\<close>







subsection \<open>The ISODATA search in the words of the specification\<close>

text \<open>
  For a numbering \<open>ord\<close> of the bins: the forward and backward count-weighted average
  ordinals \<open>l[k]\<close> and \<open>h[k]\<close> (masked where the count is zero), and the test
  \<open>round((l[k] + h[k]) / 2) == ord k\<close>. The specification numbers the bins by their
  index (\<open>ord i = i\<close>); an 8-bit numbering is \<open>ord i = i mod 256\<close>.
\<close>

definition iso_l :: "(nat \<Rightarrow> nat) \<Rightarrow> histogram \<Rightarrow> nat \<Rightarrow> real option" where
  "iso_l ord hg k =
     ma_divide (\<Sum>i\<le>k. real (fst (hg ! i)) * real (ord i)) (\<Sum>i\<le>k. real (fst (hg ! i)))"

definition iso_h :: "(nat \<Rightarrow> nat) \<Rightarrow> histogram \<Rightarrow> nat \<Rightarrow> real option" where
  "iso_h ord hg k =
     ma_divide (\<Sum>i = k..<length hg. real (fst (hg ! i)) * real (ord i))
               (\<Sum>i = k..<length hg. real (fst (hg ! i)))"

definition iso_match :: "(nat \<Rightarrow> nat) \<Rightarrow> histogram \<Rightarrow> nat \<Rightarrow> bool" where
  "iso_match ord hg k =
     (case ma_mean2 (iso_l ord hg k) (iso_h ord hg k) of
        None \<Rightarrow> False
      | Some v \<Rightarrow> np_round v = int (ord k))"

text \<open>The first index below \<open>n\<close> at which a test holds.\<close>

definition first_match :: "(nat \<Rightarrow> bool) \<Rightarrow> nat \<Rightarrow> nat \<Rightarrow> bool" where
  "first_match P n k = (k < n \<and> P k \<and> (\<forall>j<k. \<not> P j))"

text \<open>
  The histogram of a 16-bit image whose pixels take the two values 0 and 256, one pixel
  each: 257 bins with centres 0 to 256, of which only the first and the last are
  non-empty.
\<close>

definition two_level_histogram :: histogram where
  "two_level_histogram = map (\<lambda>i. (if i = 0 \<or> i = 256 then 1 else 0, real i)) [0..<257]"

subsection \<open>Tabulated arrays\<close>

text \<open>
  A device for the proofs: the array whose cell (i, j) is \<open>F i j\<close>, and the number of
  image cells under a window of half-width \<open>h\<close> centred at (i, j) in an image of
  \<open>H \<times> W\<close> cells.
\<close>

definition tab2 :: "nat \<Rightarrow> nat \<Rightarrow> (nat \<Rightarrow> nat \<Rightarrow> 'a) \<Rightarrow> 'a list list" where
  "tab2 h w F = map (\<lambda>i. map (\<lambda>j. F i j) [0..<w]) [0..<h]"

definition wcount :: "nat \<Rightarrow> nat \<Rightarrow> nat \<Rightarrow> nat \<Rightarrow> nat \<Rightarrow> real" where
  "wcount H W h i j = real (min (i + h + 1) H - (i - h)) * real (min (j + h + 1) W - (j - h))"

section \<open>Properties\<close>

subsection \<open>Single-bin histograms\<close>

text \<open>
  C1. On a histogram with exactly one bin (count \<open>c\<close>, centre \<open>v\<close>), \<open>threshold_yen\<close> and
  \<open>threshold_isodata\<close> return \<open>v\<close> through their guard on \<open>bin_centers.size\<close>;
  \<open>threshold_otsu\<close> has no such guard: its clipped variance array is empty and
  \<open>np.argmax\<close> raises \<open>ValueError\<close>.
\<close>

theorem single_bin_selectors:
  "threshold_otsu [(c, v)] = Inl ValueError \<and>
   threshold_yen [(c, v)] = Inr v \<and>
   threshold_isodata [(c, v)] = Inr v"
  by (simp add: threshold_otsu_def threshold_yen_def threshold_isodata_def counts_def
      centers_def fcumsum_def argmax_def np_index_def)

subsection \<open>Parameter validation of the local engines\<close>

lemma mean_std_invalid:
  "w = 1 \<or> w mod 2 = 0 \<Longrightarrow> mean_std img w = ([], Inl ValueError)"
  by (simp add: mean_std_def raise_eff_def)

lemma mean_std_valid:
  assumes "1 < w" "odd w"
  shows "\<exists>m s. mean_std img w =
           ([Integral_image, Alloc_array, Alloc_array, Alloc_array, Alloc_array,
             Alloc_array, Alloc_array, Alloc_array, Convolution, Convolution,
             Alloc_array, Convolution], Inr (m, s))"
proof -
  from assms have "\<not> (w = 1 \<or> w mod 2 = 0)" "\<not> w + 1 < 0" "w + 1 \<noteq> 0"
    by (auto simp: odd_iff_mod_2_eq_one)
  then show ?thesis
    by (simp add: mean_std_def Let_def done_eff_def)
qed

lemma adaptive_median:
  "threshold_adaptive nd img bs ''median'' offset md prm =
     ([Alloc_array, Window_filter],
      case median_filter nd img bs md of Inl e \<Rightarrow> Inl e | Inr t \<Rightarrow> Inr (classify img t offset))"
  by (simp add: threshold_adaptive_def filter_eff_def Let_def)

lemma adaptive_unknown:
  "method \<notin> {''generic'', ''gaussian'', ''mean'', ''median''} \<Longrightarrow>
   threshold_adaptive nd img bs method offset md prm =
     ([Alloc_array],
      Inr (classify img (map2d Fin (zeros2 (nrows img) (ncols img))) offset))"
  by (simp add: threshold_adaptive_def Let_def)

lemma sauvola_unknown:
  "method \<notin> {''sauvola'', ''wolf'', ''phansalkar''} \<Longrightarrow>
   threshold_sauvola img method w k r offset p q =
     (Alloc_array # fst (mean_std img w),
      case snd (mean_std img w) of Inl e \<Rightarrow> Inl e | Inr _ \<Rightarrow> Inl ValueError)"
  by (auto simp add: threshold_sauvola_def bind_eff_def done_eff_def raise_eff_def
      split: prod.splits sum.splits)

text \<open>
  C4, as the code has it. For window size 1 and for every even window size,
  \<open>threshold_niblack\<close> and \<open>threshold_sauvola\<close> raise \<open>ValueError\<close> before any integral
  image is built or convolution run: \<open>threshold_niblack\<close> with nothing done before,
  \<open>threshold_sauvola\<close> after one allocation (\<open>np.zeros_like\<close>).
\<close>

theorem window_validation:
  assumes "w = 1 \<or> w mod 2 = 0"
  shows "threshold_niblack img w k offset = ([], Inl ValueError) \<and>
         threshold_sauvola img method w k r offset p q = ([Alloc_array], Inl ValueError)"
  using assms
  by (simp add: threshold_niblack_def threshold_sauvola_def mean_std_invalid bind_eff_def
      done_eff_def)

theorem window_validation_witness:
  "threshold_niblack [[0]] 2 (1/5) 0 = ([], Inl ValueError) \<and>
   threshold_sauvola [[0]] ''wolf'' 2 (1/5) 128 0 2 10 = ([Alloc_array], Inl ValueError)"
  using window_validation [of 2 "[[0]]" "1/5" 0 "''wolf''" 128 2 10]
  by simp

text \<open>
  The claim as written fails at window size 4: \<open>threshold_sauvola\<close> has allocated an
  array when it raises, and \<open>threshold_adaptive\<close>, which has no check of its block
  size, raises nothing (the median filter of the instance returns its input, as a
  median over copies of one pixel does).
\<close>

theorem window_validation_counterexample:
  "threshold_sauvola [[1]] ''sauvola'' 4 (1/5) 128 0 2 10 = ([Alloc_array], Inl ValueError) \<and>
   threshold_adaptive
     \<lparr>generic_filter = \<lambda>_ _ _ _. Inl ValueError, gaussian_filter = \<lambda>_ _ _. Inl ValueError,
      convolve1d = \<lambda>_ _ _ _. Inl ValueError, median_filter = \<lambda>i _ _. Inr (map2d Fin i)\<rparr>
     [[1]] 4 ''median'' 0 ''reflect'' None = ([Alloc_array, Window_filter], Inr [[False]])"
  by (simp add: threshold_sauvola_def mean_std_invalid bind_eff_def done_eff_def
      adaptive_median classify_def zip2_def map2d_def fgreater_def fsub_def)

text \<open>
  C5, as the code has it. With a method string outside \<open>{sauvola, wolf, phansalkar}\<close>,
  \<open>threshold_sauvola\<close> raises \<open>ValueError\<close>, but only at the end of its dispatch: with a
  valid window (odd, greater than 1) after the allocation, the integral image and the
  convolutions of the local statistics; with window size 1 or an even window size the
  window error comes first, after the allocation alone.
\<close>

theorem unknown_method:
  assumes "method \<notin> {''sauvola'', ''wolf'', ''phansalkar''}"
  shows "(w = 1 \<or> w mod 2 = 0 \<longrightarrow>
            threshold_sauvola img method w k r offset p q = ([Alloc_array], Inl ValueError)) \<and>
         (1 < w \<and> odd w \<longrightarrow>
            threshold_sauvola img method w k r offset p q =
              ([Alloc_array, Integral_image, Alloc_array, Alloc_array, Alloc_array, Alloc_array,
                Alloc_array, Alloc_array, Alloc_array, Convolution, Convolution,
                Alloc_array, Convolution], Inl ValueError))"
proof (intro conjI impI)
  assume "w = 1 \<or> w mod 2 = 0"
  then show "threshold_sauvola img method w k r offset p q = ([Alloc_array], Inl ValueError)"
    by (simp add: sauvola_unknown [OF assms] mean_std_invalid)
next
  assume "1 < w \<and> odd w"
  then obtain m' s' where "mean_std img w =
         ([Integral_image, Alloc_array, Alloc_array, Alloc_array, Alloc_array,
           Alloc_array, Alloc_array, Alloc_array, Convolution, Convolution,
           Alloc_array, Convolution], Inr (m', s'))"
    using mean_std_valid by blast
  then show "threshold_sauvola img method w k r offset p q =
         ([Alloc_array, Integral_image, Alloc_array, Alloc_array, Alloc_array, Alloc_array,
           Alloc_array, Alloc_array, Alloc_array, Convolution, Convolution,
           Alloc_array, Convolution], Inl ValueError)"
    by (simp add: sauvola_unknown [OF assms])
qed

theorem unknown_method_witness:
  "threshold_sauvola [[1]] ''otsu'' 2 (1/5) 128 0 2 10 = ([Alloc_array], Inl ValueError) \<and>
   threshold_sauvola [[1]] ''otsu'' 3 (1/5) 128 0 2 10 =
     ([Alloc_array, Integral_image, Alloc_array, Alloc_array, Alloc_array, Alloc_array,
       Alloc_array, Alloc_array, Alloc_array, Convolution, Convolution,
       Alloc_array, Convolution], Inl ValueError)"
  using unknown_method [of "''otsu''" 2 "[[1]]" "1/5" 128 0 2 10]
    unknown_method [of "''otsu''" 3 "[[1]]" "1/5" 128 0 2 10]
  by simp

text \<open>
  The claim as written fails at the method \<open>'maximum'\<close>: \<open>threshold_sauvola\<close> has built
  the integral image and run its convolutions when it raises, and \<open>threshold_adaptive\<close>,
  whose dispatch has no final branch, raises nothing and returns a classification.
\<close>

theorem unknown_method_counterexample:
  "fst (threshold_sauvola [[1]] ''maximum'' 3 (1/5) 128 0 2 10) =
     [Alloc_array, Integral_image, Alloc_array, Alloc_array, Alloc_array, Alloc_array,
      Alloc_array, Alloc_array, Alloc_array, Convolution, Convolution,
      Alloc_array, Convolution] \<and>
   threshold_adaptive
     \<lparr>generic_filter = \<lambda>_ _ _ _. Inl ValueError, gaussian_filter = \<lambda>_ _ _. Inl ValueError,
      convolve1d = \<lambda>_ _ _ _. Inl ValueError, median_filter = \<lambda>_ _ _. Inl ValueError\<rparr>
     [[1]] 3 ''maximum'' 0 ''reflect'' None = ([Alloc_array], Inr [[True]])"
proof -
  obtain m s where "mean_std [[1]] 3 =
           ([Integral_image, Alloc_array, Alloc_array, Alloc_array, Alloc_array,
             Alloc_array, Alloc_array, Alloc_array, Convolution, Convolution,
             Alloc_array, Convolution], Inr (m, s))"
    using mean_std_valid [of 3 "[[1]]"] by auto
  then show ?thesis
    by (simp add: adaptive_unknown sauvola_unknown classify_def zip2_def map2d_def
        fgreater_def fsub_def zeros2_def nrows_def ncols_def)
qed

subsection \<open>Local statistics of a constant image\<close>

lemma nrows_tab2: "nrows (tab2 h w F) = h"
  by (simp add: nrows_def tab2_def)

lemma ncols_tab2: "0 < h \<Longrightarrow> ncols (tab2 h w F) = w"
  by (cases h) (simp_all add: ncols_def tab2_def upt_conv_Cons del: upt_Suc)

lemma tab2_nth: "i < h \<Longrightarrow> j < w \<Longrightarrow> tab2 h w F ! i ! j = F i j"
  by (simp add: tab2_def)

lemma tab2_cong: "(\<And>i j. i < h \<Longrightarrow> j < w \<Longrightarrow> F i j = G i j) \<Longrightarrow> tab2 h w F = tab2 h w G"
  by (simp add: tab2_def)

lemma map2_same: "map2 f (map g xs) (map h xs) = map (\<lambda>x. f (g x) (h x)) xs"
  by (induction xs) simp_all

lemma zip2_tab2: "zip2 f (tab2 h w A) (tab2 h w B) = tab2 h w (\<lambda>i j. f (A i j) (B i j))"
  by (simp add: zip2_def tab2_def map2_same)

lemma map2d_tab2: "map2d f (tab2 h w A) = tab2 h w (\<lambda>i j. f (A i j))"
  by (simp add: map2d_def tab2_def)

lemma replicate_tab2: "replicate h (replicate w c) = tab2 h w (\<lambda>_ _. c)"
  by (simp add: tab2_def map_replicate_const)

lemma convolve_tab2:
  "convolve inp k md = tab2 (nrows inp) (ncols inp) (convolve_at inp k md)"
  by (simp add: convolve_def tab2_def)

lemma butlast_tab2: "butlast (map butlast (tab2 (Suc h) (Suc w) F)) = tab2 h w F"
  by (simp add: tab2_def butlast_append map_butlast [symmetric])

lemma pad_tab2:
  "map (\<lambda>r. 0 # r) (replicate w 0 # tab2 h w F) =
   tab2 (Suc h) (Suc w) (\<lambda>i j. if i = 0 \<or> j = 0 then 0 else F (i - 1) (j - 1))"
  by (simp add: tab2_def map_upt_Suc map_replicate_const del: upt_Suc)

lemma ext_read_tab2:
  assumes "0 < h" "0 < w"
  shows "ext_read md (tab2 h w F) i j =
     (case md of
        Nearest \<Rightarrow> F (nat (max 0 (min (int h - 1) i))) (nat (max 0 (min (int w - 1) j)))
      | Constant \<Rightarrow> if 0 \<le> i \<and> i < int h \<and> 0 \<le> j \<and> j < int w then F (nat i) (nat j) else 0)"
  using assms
  by (cases md) (auto simp: ext_read_def nrows_tab2 ncols_tab2 Let_def tab2_nth)

lemma set2_len: "length (set2 a i j v) = length a"
  by (simp add: set2_def)

lemma set2_len_row: "i' < length a \<Longrightarrow> length (set2 a i j v ! i') = length (a ! i')"
  by (cases "i = i'") (simp_all add: set2_def)

lemma set2_nth:
  "i < length a \<Longrightarrow> j < length (a ! i) \<Longrightarrow> i' < length a \<Longrightarrow>
   set2 a i j v ! i' ! j' = (if i' = i \<and> j' = j then v else a ! i' ! j')"
  by (simp add: set2_def nth_list_update)

lemma zeros2_len: "length (zeros2 h w) = h"
  by (simp add: zeros2_def)

lemma zeros2_len_row: "i < h \<Longrightarrow> length (zeros2 h w ! i) = w"
  by (simp add: zeros2_def)

lemma zeros2_nth: "i < h \<Longrightarrow> j < w \<Longrightarrow> zeros2 h w ! i ! j = 0"
  by (simp add: zeros2_def)

lemma make_kern_nth:
  assumes "0 < n" "a < n" "b < n"
  shows "make_kern n ! a ! b =
     (if a = n - 1 \<and> b = 0 then - 1
      else if a = 0 \<and> b = n - 1 then - 1
      else if a = n - 1 \<and> b = n - 1 then 1
      else if a = 0 \<and> b = 0 then 1 else 0)"
  using assms unfolding make_kern_def
  by (simp add: set2_nth set2_len set2_len_row zeros2_len zeros2_len_row zeros2_nth)

lemma make_kern_len: "length (make_kern n) = n"
  by (simp add: make_kern_def set2_len zeros2_len)

lemma make_kern_len_row: "i < n \<Longrightarrow> length (make_kern n ! i) = n"
  by (simp add: make_kern_def set2_len set2_len_row zeros2_len zeros2_len_row)

lemma ncols_nth0: "0 < length a \<Longrightarrow> ncols a = length (a ! 0)"
  by (cases a) (simp_all add: ncols_def)

lemma make_kern_shape: "0 < n \<Longrightarrow> nrows (make_kern n) = n \<and> ncols (make_kern n) = n"
  by (simp add: nrows_def ncols_nth0 make_kern_len make_kern_len_row)

lemma sum_list_upt: "sum_list (map f [0..<n]) = (\<Sum>a = 0..<n. f a)"
  by (simp add: interv_sum_list_conv_sum_set_nat)

lemma two_point_sum:
  fixes G :: "nat \<Rightarrow> real"
  assumes "2 \<le> n"
  shows "(\<Sum>b = 0..<n. (if b = 0 then x else if b = n - 1 then y else 0) * G b) =
         x * G 0 + y * G (n - 1)"
proof -
  have "(\<Sum>b = 0..<n. (if b = 0 then x else if b = n - 1 then y else 0) * G b) =
        (\<Sum>b = 0..<n. (if b = 0 then x * G b else 0) + (if b = n - 1 then y * G b else 0))"
    using assms by (intro sum.cong) auto
  also have "\<dots> = x * G 0 + y * G (n - 1)"
    using assms by (simp add: sum.distrib)
  finally show ?thesis .
qed

lemma make_kern_product:
  assumes "2 \<le> n" "a < n" "b < n"
  shows "make_kern n ! a ! b =
     (if a = 0 then 1 else if a = n - 1 then - 1 else 0) *
     (if b = 0 then 1 else if b = n - 1 then - 1 else 0)"
  using assms by (simp add: make_kern_nth)

lemma kern_sum:
  fixes F :: "nat \<Rightarrow> nat \<Rightarrow> real"
  assumes "2 \<le> n"
  shows "sum_list (map (\<lambda>a. sum_list (map (\<lambda>b. make_kern n ! a ! b * F a b) [0..<n])) [0..<n]) =
         F 0 0 + F (n - 1) (n - 1) - F 0 (n - 1) - F (n - 1) 0"
proof -
  let ?ka = "\<lambda>a. if a = 0 then 1 else if a = n - 1 then - 1 else (0::real)"
  have "sum_list (map (\<lambda>a. sum_list (map (\<lambda>b. make_kern n ! a ! b * F a b) [0..<n])) [0..<n]) =
        (\<Sum>a = 0..<n. \<Sum>b = 0..<n. make_kern n ! a ! b * F a b)"
    by (simp add: sum_list_upt)
  also have "\<dots> = (\<Sum>a = 0..<n. ?ka a * (\<Sum>b = 0..<n. ?ka b * F a b))"
    using assms by (intro sum.cong refl) (simp add: make_kern_product sum_distrib_left mult.assoc)
  also have "\<dots> = (\<Sum>a = 0..<n. ?ka a * (F a 0 - F a (n - 1)))"
    using two_point_sum [OF assms, of 1 "- 1"] by simp
  also have "\<dots> = (F 0 0 - F 0 (n - 1)) - (F (n - 1) 0 - F (n - 1) (n - 1))"
    using two_point_sum [OF assms, of 1 "- 1" "\<lambda>a. F a 0 - F a (n - 1)"] by simp
  finally show ?thesis by simp
qed

lemma convolve_at_kern:
  "convolve_at inp (make_kern (2 * h + 2)) md i j =
     ext_read md inp (int i + int h + 1) (int j + int h + 1)
     + ext_read md inp (int i - int h) (int j - int h)
     - ext_read md inp (int i + int h + 1) (int j - int h)
     - ext_read md inp (int i - int h) (int j + int h + 1)"
proof -
  have sh: "nrows (make_kern (2 * h + 2)) = 2 * h + 2" "ncols (make_kern (2 * h + 2)) = 2 * h + 2"
    using make_kern_shape [of "2 * h + 2"] by simp_all
  have d: "(2 * h + 2) div 2 = h + 1" by simp
  show ?thesis
    unfolding convolve_at_def sh Let_def d
    by (subst kern_sum) (simp_all add: algebra_simps)
qed

lemma ones2_shape: "0 < w \<Longrightarrow> nrows (ones2 w w) = w \<and> ncols (ones2 w w) = w"
  by (cases w) (simp_all add: ones2_def nrows_def ncols_def)

lemma ones2_nth: "a < h \<Longrightarrow> b < w \<Longrightarrow> ones2 h w ! a ! b = 1"
  by (simp add: ones2_def)

lemma convolve_at_ones:
  "convolve_at inp (ones2 (2 * h + 1) (2 * h + 1)) md i j =
     (\<Sum>a = 0..<2 * h + 1. \<Sum>b = 0..<2 * h + 1.
        ext_read md inp (int i + int h - int a) (int j + int h - int b))"
proof -
  have sh: "nrows (ones2 (2 * h + 1) (2 * h + 1)) = 2 * h + 1"
           "ncols (ones2 (2 * h + 1) (2 * h + 1)) = 2 * h + 1"
    using ones2_shape [of "2 * h + 1"] by simp_all
  have d: "(2 * h + 1) div 2 = h" by simp
  show ?thesis
    unfolding convolve_at_def sh Let_def d sum_list_upt
    by (intro sum.cong refl) (simp add: ones2_nth)
qed

lemma window_count:
  assumes "i < H"
  shows "(\<Sum>a = 0..<2 * h + 1.
            if 0 \<le> int i + int h - int a \<and> int i + int h - int a < int H then 1 else 0) =
         (real (min (i + h + 1) H - (i - h)))"
proof -
  let ?A = "{0..<2 * h + 1}"
  let ?P = "\<lambda>a. 0 \<le> int i + int h - int a \<and> int i + int h - int a < int H"
  have "(\<Sum>a\<in>?A. if ?P a then 1 else (0::real)) =
        (\<Sum>a\<in>?A \<inter> {a. ?P a}. 1) + (\<Sum>a\<in>?A \<inter> - {a. ?P a}. 0)"
    by (rule sum.If_cases) (rule finite_atLeastLessThan)
  also have "\<dots> = real (card (?A \<inter> {a. ?P a}))"
    by (simp only: sum_constant sum.neutral_const mult_1_right add_0_right)
  also have "?A \<inter> {a. ?P a} = {(i + h + 1) - H ..< Suc (min (2 * h) (i + h))}"
    by auto
  also have "card \<dots> = min (i + h + 1) H - (i - h)"
    using assms unfolding card_atLeastLessThan by arith
  finally show ?thesis .
qed

lemma window_count_pos:
  fixes i h H :: nat
  assumes "i < H"
  shows "0 < min (i + h + 1) H - (i - h)"
  using assms by arith

lemma ncols_replicate: "0 < H \<Longrightarrow> ncols (replicate H r) = length r"
  by (cases H) (simp_all add: ncols_def)

lemma integral_image_const:
  assumes "0 < H"
  shows "integral_image (replicate H (replicate W c)) =
         tab2 H W (\<lambda>i j. c * real (Suc i) * real (Suc j))"
proof -
  have "\<And>i j. i < H \<Longrightarrow> j < W \<Longrightarrow>
      sum_list (map (\<lambda>row. sum_list (take (Suc j) row)) (take (Suc i) (replicate H (replicate W c))))
      = c * real (Suc i) * real (Suc j)"
    by (simp add: sum_list_replicate min_def algebra_simps)
  then show ?thesis
    using assms
    by (simp add: integral_image_def nrows_def ncols_replicate tab2_def)
qed

lemma padded_const:
  "map (\<lambda>r. 0 # r) (replicate W 0 # tab2 H W (\<lambda>i j. c * real (Suc i) * real (Suc j))) =
   tab2 (Suc H) (Suc W) (\<lambda>i j. c * real i * real j)"
  unfolding pad_tab2
  by (rule tab2_cong) auto

lemma conv_ones_const:
  assumes "0 < H" "0 < W" "i < H" "j < W"
  shows "convolve_at (tab2 H W (\<lambda>_ _. v)) (ones2 (2 * h + 1) (2 * h + 1)) Constant i j =
         v * (real (min (i + h + 1) H - (i - h)) * real (min (j + h + 1) W - (j - h)))"
proof -
  let ?P = "\<lambda>a. 0 \<le> int i + int h - int a \<and> int i + int h - int a < int H"
  let ?Q = "\<lambda>b. 0 \<le> int j + int h - int b \<and> int j + int h - int b < int W"
  have "convolve_at (tab2 H W (\<lambda>_ _. v)) (ones2 (2 * h + 1) (2 * h + 1)) Constant i j =
        (\<Sum>a = 0..<2 * h + 1. \<Sum>b = 0..<2 * h + 1.
           v * ((if ?P a then 1 else 0) * (if ?Q b then 1 else 0)))"
    unfolding convolve_at_ones
    by (intro sum.cong refl) (simp add: ext_read_tab2 [OF assms(1,2)])
  also have "\<dots> = v * ((\<Sum>a = 0..<2 * h + 1. if ?P a then 1 else 0) *
                       (\<Sum>b = 0..<2 * h + 1. if ?Q b then 1 else 0))"
    unfolding sum_product unfolding sum_distrib_left ..
  finally show ?thesis
    by (simp only: window_count [OF assms(3)] window_count [OF assms(4)])
qed

lemma conv_kern_const:
  assumes "i < H" "j < W"
  shows "convolve_at (tab2 (Suc H) (Suc W) (\<lambda>i j. c * real i * real j))
           (make_kern (2 * h + 2)) Nearest i j =
         c * (real (min (i + h + 1) H - (i - h)) * real (min (j + h + 1) W - (j - h)))"
proof -
  have r2: "nat (max 0 (min (int (Suc H) - 1) (int i + int h + 1))) = min (i + h + 1) H"
    by auto
  have r1: "nat (max 0 (min (int (Suc H) - 1) (int i - int h))) = i - h"
    using assms(1) by auto
  have c2: "nat (max 0 (min (int (Suc W) - 1) (int j + int h + 1))) = min (j + h + 1) W"
    by auto
  have c1: "nat (max 0 (min (int (Suc W) - 1) (int j - int h))) = j - h"
    using assms(2) by auto
  have ler: "i - h \<le> min (i + h + 1) H" using assms(1) by arith
  have lec: "j - h \<le> min (j + h + 1) W" using assms(2) by arith
  show ?thesis
    unfolding convolve_at_kern
    by (simp only: ext_read_tab2 [OF zero_less_Suc zero_less_Suc] mode.case r1 r2 c1 c2
          of_nat_diff [OF ler] of_nat_diff [OF lec])
       (simp add: algebra_simps)
qed

lemma wcount_pos: "i < H \<Longrightarrow> j < W \<Longrightarrow> 0 < wcount H W h i j"
  unfolding wcount_def using window_count_pos [of i H h] window_count_pos [of j W h]
  by simp

lemma mean_std_constant:
  assumes "0 < H" "0 < W" "0 < h"
  shows "snd (mean_std (replicate H (replicate W c)) (2 * int h + 1)) =
         Inr (replicate H (replicate W (Fin c)), replicate H (replicate W (Fin 0)))"
proof -
  let ?img = "replicate H (replicate W c)"
  let ?w = "2 * int h + 1"
  have valid: "\<not> (?w = 1 \<or> ?w mod 2 = 0)" "\<not> ?w + 1 < 0" "?w + 1 \<noteq> 0"
    using assms(3) by auto
  have nw: "nat (?w + 1) = 2 * h + 2" "nat ?w = 2 * h + 1"
    by auto
  have sh: "nrows ?img = H" "ncols ?img = W"
    using assms(1) by (simp_all add: nrows_def ncols_replicate)
  have I0: "integral_image ?img = tab2 H W (\<lambda>i j. c * real (Suc i) * real (Suc j))"
    by (rule integral_image_const [OF assms(1)])
  have conv1: "butlast (map butlast (convolve
          (map (\<lambda>r. 0 # r) (replicate (ncols (integral_image ?img)) 0 # integral_image ?img))
          (make_kern (2 * h + 2)) Nearest)) = tab2 H W (\<lambda>i j. c * wcount H W h i j)"
    unfolding I0 ncols_tab2 [OF assms(1)] padded_const convolve_tab2 nrows_tab2
      ncols_tab2 [OF zero_less_Suc] butlast_tab2
    by (rule tab2_cong) (simp only: conv_kern_const wcount_def)
  have w2: "convolve (ones2 H W) (ones2 (2 * h + 1) (2 * h + 1)) Constant =
            tab2 H W (\<lambda>i j. wcount H W h i j)"
    unfolding ones2_def [of H W] replicate_tab2 convolve_tab2 nrows_tab2 ncols_tab2 [OF assms(1)]
    by (rule tab2_cong) (simp only: conv_ones_const [OF assms(1,2)] wcount_def mult_1 mult.assoc)
  have g2: "map2d (\<lambda>x. x * x) ?img = tab2 H W (\<lambda>_ _. c * c)"
    by (simp add: replicate_tab2 map2d_tab2)
  have sg2: "convolve (tab2 H W (\<lambda>_ _. c * c)) (ones2 (2 * h + 1) (2 * h + 1)) Constant =
            tab2 H W (\<lambda>i j. c * c * wcount H W h i j)"
    unfolding convolve_tab2 nrows_tab2 ncols_tab2 [OF assms(1)]
    by (rule tab2_cong) (simp only: conv_ones_const [OF assms(1,2)] wcount_def mult_1 mult.assoc)
  have m: "zip2 (\<lambda>a b. fdiv (Fin a) (Fin b)) (tab2 H W (\<lambda>i j. c * wcount H W h i j))
             (tab2 H W (\<lambda>i j. wcount H W h i j)) = tab2 H W (\<lambda>_ _. Fin c)"
    unfolding zip2_tab2
    by (rule tab2_cong) (use wcount_pos in \<open>simp add: less_imp_neq [THEN not_sym]\<close>)
  have s: "map2d fsqrt (zip2 (\<lambda>a b. fdiv a (Fin b))
             (zip2 (\<lambda>a b. fsub (Fin a) b) (tab2 H W (\<lambda>i j. c * c * wcount H W h i j))
                (zip2 (\<lambda>a b. fmul (Fin a) b) (tab2 H W (\<lambda>i j. wcount H W h i j))
                   (map2d fsq (tab2 H W (\<lambda>_ _. Fin c)))))
             (tab2 H W (\<lambda>i j. wcount H W h i j))) = tab2 H W (\<lambda>_ _. Fin 0)"
    unfolding zip2_tab2 map2d_tab2
    by (rule tab2_cong)
       (use wcount_pos in \<open>simp add: less_imp_neq [THEN not_sym] fsq_def fsub_def algebra_simps\<close>)
  have "snd (mean_std ?img ?w) = Inr (tab2 H W (\<lambda>_ _. Fin c), tab2 H W (\<lambda>_ _. Fin 0))"
    unfolding mean_std_def
    by (simp only: valid if_False Let_def nw sh conv1 w2 g2 sg2 m s done_eff_def snd_conv)
  then show ?thesis
    by (simp only: replicate_tab2)
qed



subsection \<open>Monotonicity in the offset\<close>

lemma snd_bind_eff_Inr: "snd m = Inr a \<Longrightarrow> snd (bind_eff m f) = snd (f a)"
  by (cases m) (auto simp: bind_eff_def split: prod.splits)

lemma snd_bind_eff_Inl: "snd m = Inl e \<Longrightarrow> snd (bind_eff m f) = Inl e"
  by (cases m) (auto simp: bind_eff_def split: prod.splits)

lemma fgreater_offset_mono:
  assumes "o1 \<le> o2" "fgreater (Fin px) (fsub th (Fin o1))"
  shows "fgreater (Fin px) (fsub th (Fin o2))"
  using assms by (cases th) (simp_all add: fgreater_def fsub_def)

lemma list_all2_map2_same:
  assumes "\<And>x y. P (f x y) (g x y)"
  shows "list_all2 P (map2 f xs ys) (map2 g xs ys)"
  by (induction xs ys rule: list_induct2') (simp_all add: assms)

lemma classify_mono:
  assumes "o1 \<le> o2"
  shows "list_all2 (list_all2 (\<longrightarrow>)) (classify img t o1) (classify img t o2)"
  unfolding classify_def zip2_def
  by (intro list_all2_map2_same impI) (rule fgreater_offset_mono [OF assms])

lemma niblack_form:
  "(\<exists>e. \<forall>offset. snd (threshold_niblack img w k offset) = Inl e) \<or>
   (\<exists>t. \<forall>offset. snd (threshold_niblack img w k offset) = Inr (classify img t offset))"
proof (cases "snd (mean_std img w)")
  case (Inl e)
  then show ?thesis by (simp add: threshold_niblack_def snd_bind_eff_Inl)
next
  case (Inr ms)
  then show ?thesis
    by (cases ms) (auto simp add: threshold_niblack_def snd_bind_eff_Inr Let_def done_eff_def)
qed

lemma snd_bind_eff:
  "snd (bind_eff m f) = (case snd m of Inl e \<Rightarrow> Inl e | Inr a \<Rightarrow> snd (f a))"
  by (cases m) (auto simp: bind_eff_def split: prod.splits sum.splits)

lemma snd_done_eff: "snd (done_eff ev a) = Inr a"
  by (simp add: done_eff_def)

lemma snd_raise_eff: "snd (raise_eff ev e) = Inl e"
  by (simp add: raise_eff_def)

lemma snd_lift_eff: "snd (lift_eff r) = r"
  by (simp add: lift_eff_def)

lemmas snd_eff = snd_bind_eff snd_done_eff snd_raise_eff snd_lift_eff

lemma sauvola_form:
  "(\<exists>e. \<forall>offset. snd (threshold_sauvola img method w k r offset p q) = Inl e) \<or>
   (\<exists>img' t. \<forall>offset. snd (threshold_sauvola img method w k r offset p q) =
       Inr (classify img' t offset))"
proof (cases "snd (mean_std img w)")
  case (Inl e)
  then show ?thesis
    by (simp add: threshold_sauvola_def snd_eff)
next
  case (Inr ms)
  obtain m s where ms: "ms = (m, s)" by (cases ms)
  consider "method = ''sauvola''" | "method = ''wolf''" | "method = ''phansalkar''"
    | "method \<notin> {''sauvola'', ''wolf'', ''phansalkar''}" by auto
  then show ?thesis
  proof cases
    case 1
    have "\<forall>offset. snd (threshold_sauvola img method w k r offset p q) =
        Inr (classify img (zip2 (\<lambda>m s. fmul m (fadd (Fin 1)
              (fmul (Fin k) (fsub (fdiv s (Fin r)) (Fin 1))))) m s) offset)"
      by (simp add: threshold_sauvola_def snd_eff Inr ms 1 Let_def)
    then show ?thesis by blast
  next
    case 2
    show ?thesis
    proof (cases "surface_max s")
      case (Inl e)
      then show ?thesis
        by (simp add: threshold_sauvola_def snd_eff Inr ms 2)
    next
      case R: (Inr R)
      show ?thesis
      proof (cases "image_min img")
        case (Inl e)
        then show ?thesis
          by (simp add: threshold_sauvola_def snd_eff Inr ms 2 R)
      next
        case M: (Inr M)
        have "\<forall>offset. snd (threshold_sauvola img method w k r offset p q) =
            Inr (classify img (zip2 (\<lambda>m s. fadd (fadd (fmul (Fin (1 - k)) m) (Fin (k * M)))
                    (fmul (fmul (Fin k) (fdiv s R)) (fsub m (Fin M)))) m s) offset)"
          by (simp add: threshold_sauvola_def snd_eff Inr ms 2 R M Let_def)
        then show ?thesis by blast
      qed
    qed
  next
    case 3
    show ?thesis
    proof (cases "snd (mean_std (map2d (\<lambda>x. x / 255) img) w)")
      case (Inl e)
      then show ?thesis
        by (simp add: threshold_sauvola_def snd_eff Inr ms 3 Let_def)
    next
      case i2: (Inr ms2)
      obtain m2 s2 where ms2: "ms2 = (m2, s2)" by (cases ms2)
      have "\<forall>offset. snd (threshold_sauvola img method w k r offset p q) =
          Inr (classify (map2d (\<lambda>x. x / 255) img)
                (zip2 (\<lambda>m s. fmul m (fadd (fadd (Fin 1) (fmul (Fin p) (fexp (fmul (Fin (- q)) m))))
                        (fmul (Fin k) (fsub (fdiv s (Fin (r / 255))) (Fin 1))))) m2 s2) offset)"
        by (simp add: threshold_sauvola_def snd_eff Inr ms 3 i2 ms2 Let_def)
      then show ?thesis by blast
    qed
  next
    case 4
    then show ?thesis
      by (simp add: sauvola_unknown Inr)
  qed
qed

text \<open>
  C3, as the code has it. The classification is \<open>image > (t - offset)\<close>, and the
  threshold surface \<open>t\<close> does not depend on the offset: a larger offset lowers the
  value the pixel is compared with. For \<open>o1 \<le> o2\<close> the two calls raise the same error
  or every pixel that is foreground under \<open>o1\<close> is foreground under \<open>o2\<close>: the
  classification is non-decreasing in the offset.
\<close>

theorem offset_monotone:
  assumes "o1 \<le> o2"
  shows "same_or_grows (snd (threshold_niblack img w k o1)) (snd (threshold_niblack img w k o2)) \<and>
         same_or_grows (snd (threshold_sauvola img method w k r o1 p q))
                       (snd (threshold_sauvola img method w k r o2 p q))"
  using niblack_form [of img w k] sauvola_form [of img "method" w k r p q] classify_mono [OF assms]
  by (auto simp add: same_or_grows_def)


theorem offset_monotone_witness:
  "(0::real) \<le> 1 \<and>
   same_or_grows (snd (threshold_niblack [[5, 5], [5, 5]] 3 (1/5) 0))
                 (snd (threshold_niblack [[5, 5], [5, 5]] 3 (1/5) 1)) \<and>
   same_or_grows (snd (threshold_sauvola [[5, 5], [5, 5]] ''sauvola'' 3 (1/5) 128 0 2 10))
                 (snd (threshold_sauvola [[5, 5], [5, 5]] ''sauvola'' 3 (1/5) 128 1 2 10))"
  using offset_monotone [of 0 1 "[[5, 5], [5, 5]]" 3 "1/5" "''sauvola''" 128 2 10]
  by simp

lemma mean_std_2x2:
  "snd (mean_std [[c, c], [c, c]] 3) = Inr ([[Fin c, Fin c], [Fin c, Fin c]],
                                            [[Fin 0, Fin 0], [Fin 0, Fin 0]])"
  using mean_std_constant [of 2 2 1 c] by (simp add: numeral_2_eq_2)

text \<open>
  The claim as written (foreground under the larger offset implies foreground under
  the smaller) fails on a constant image: with offset 0 no pixel exceeds its local
  mean, with offset 1 every pixel does.
\<close>

theorem offset_monotone_counterexample:
  "snd (threshold_niblack [[5, 5], [5, 5]] 3 (1/5) 0) = Inr [[False, False], [False, False]] \<and>
   snd (threshold_niblack [[5, 5], [5, 5]] 3 (1/5) 1) = Inr [[True, True], [True, True]]"
  by (simp add: threshold_niblack_def snd_eff mean_std_2x2 classify_def zip2_def fsub_def
      fgreater_def)

subsection \<open>The Wolf variant\<close>




















subsection \<open>Otsu's selector\<close>

lemma length_cumsum_by: "length (cumsum_by f a xs) = length xs"
  by (induction xs arbitrary: a) simp_all


lemma cumsum_by_nth:
  fixes a :: real
  shows "k < length xs \<Longrightarrow> cumsum_by (+) a xs ! k = a + sum_list (take (Suc k) xs)"
proof (induction xs arbitrary: a k)
  case Nil
  then show ?case by simp
next
  case (Cons x xs)
  then show ?case by (cases k) simp_all
qed




lemma sum_list_take_nth:
  fixes xs :: "real list"
  assumes "k < length xs"
  shows "sum_list (take (Suc k) xs) = (\<Sum>i\<le>k. xs ! i)"
proof -
  have len: "length (take (Suc k) xs) = Suc k" using assms by simp
  have "sum_list (take (Suc k) xs) =
        (\<Sum>i = 0..<length (take (Suc k) xs). take (Suc k) xs ! i)"
    by (rule sum_list_sum_nth)
  also have "\<dots> = (\<Sum>i = 0..<Suc k. take (Suc k) xs ! i)"
    unfolding len ..
  also have "\<dots> = (\<Sum>i = 0..<Suc k. xs ! i)"
    by (intro sum.cong refl) simp
  also have "{0..<Suc k} = {..k}" by auto
  finally show ?thesis .
qed

lemma sum_list_drop_nth:
  fixes xs :: "real list"
  shows "sum_list (drop k xs) = (\<Sum>i = k..<length xs. xs ! i)"
proof -
  have "sum_list (drop k xs) = (\<Sum>i = 0..<length xs - k. xs ! (k + i))"
    by (simp add: sum_list_sum_nth)
  also have "\<dots> = (\<Sum>i = k..<length xs. xs ! i)"
    by (rule sum.reindex_bij_witness [where i = "\<lambda>i. i - k" and j = "\<lambda>i. k + i"]) auto
  finally show ?thesis .
qed










lemma rev_map2:
  "length xs = length ys \<Longrightarrow> rev (map2 f xs ys) = map2 f (rev xs) (rev ys)"
  by (simp add: rev_map zip_rev)



lemma map2_nth: "k < length xs \<Longrightarrow> k < length ys \<Longrightarrow> map2 f xs ys ! k = f (xs ! k) (ys ! k)"
  by simp




subsection \<open>The ISODATA selector\<close>

lemma length_cumsum: "length (cumsum xs) = length xs"
  by (simp add: cumsum_def length_cumsum_by)

lemma cumsum_nth: "k < length xs \<Longrightarrow> cumsum xs ! k = sum_list (take (Suc k) xs)"
  by (simp add: cumsum_def cumsum_by_nth del: take_Suc)

lemma cumsum_map_nth:
  assumes "k < length ys"
  shows "cumsum (map f ys) ! k = (\<Sum>i\<le>k. f (ys ! i))"
proof -
  have "cumsum (map f ys) ! k = sum_list (take (Suc k) (map f ys))"
    using assms by (intro cumsum_nth) simp
  also have "\<dots> = (\<Sum>i\<le>k. map f ys ! i)"
    using assms by (intro sum_list_take_nth) simp
  also have "\<dots> = (\<Sum>i\<le>k. f (ys ! i))"
    using assms by (intro sum.cong refl) simp
  finally show ?thesis .
qed

lemma rev_cumsum_rev_map_nth:
  assumes "k < length ys"
  shows "rev (cumsum (rev (map f ys))) ! k = (\<Sum>i = k..<length ys. f (ys ! i))"
proof -
  let ?xs = "map f ys"
  have "rev (cumsum (rev ?xs)) ! k = cumsum (rev ?xs) ! (length ys - Suc k)"
    using assms by (simp add: rev_nth length_cumsum)
  also have "\<dots> = sum_list (take (Suc (length ys - Suc k)) (rev ?xs))"
    using assms by (intro cumsum_nth) simp
  also have "Suc (length ys - Suc k) = length ?xs - k" using assms by simp
  also have "sum_list (take (length ?xs - k) (rev ?xs)) = sum_list (drop k ?xs)"
    by (simp only: take_rev sum_list_rev length_map diff_diff_cancel
          less_imp_le [OF assms])
  also have "\<dots> = (\<Sum>i = k..<length ?xs. ?xs ! i)"
    by (rule sum_list_drop_nth)
  also have "\<dots> = (\<Sum>i = k..<length ys. f (ys ! i))"
    by (intro sum.cong) simp_all
  finally show ?thesis .
qed

lemma arange_uint8_nth: "i < n \<Longrightarrow> unat (arange_uint8 n ! i) = i mod 256"
  by (simp add: arange_uint8_def unat_of_nat)

lemma length_arange_uint8: "length (arange_uint8 n) = n"
  by (simp add: arange_uint8_def)

lemma first_nonzero_from_spec:
  "first_nonzero_from i bs =
     (if \<exists>k<length bs. bs ! k then Inr (i + (LEAST k. k < length bs \<and> bs ! k))
      else Inl IndexError)"
proof (induction bs arbitrary: i)
  case Nil
  then show ?case by simp
next
  case (Cons b bs)
  show ?case
  proof (cases b)
    case True
    then have "(LEAST k. k < length (b # bs) \<and> (b # bs) ! k) = 0"
      by (intro Least_equality) simp_all
    then show ?thesis using True by auto
  next
    case False
    show ?thesis
    proof (cases "\<exists>k<length bs. bs ! k")
      case ex: True
      then obtain k where k: "k < length bs" "bs ! k" by blast
      have "(LEAST k. k < length (b # bs) \<and> (b # bs) ! k) =
            Suc (LEAST k. k < length bs \<and> bs ! k)"
        by (rule Least_Suc2 [where Q = "\<lambda>k. k < length bs \<and> bs ! k" and n = "Suc k"])
          (use False k in auto)
      moreover have "\<exists>k<length (b # bs). (b # bs) ! k"
        using k by (intro exI [of _ "Suc k"]) simp
      ultimately show ?thesis using False ex Cons.IH [of "Suc i"] by simp
    next
      case nex: False
      have "\<not> (\<exists>k<length (b # bs). (b # bs) ! k)"
        using False nex by (auto simp: nth_Cons split: nat.splits)
      then show ?thesis using False nex Cons.IH [of "Suc i"] by simp
    qed
  qed
qed

lemma first_nonzero_found:
  assumes "first_match (\<lambda>j. bs ! j) (length bs) k"
  shows "first_nonzero bs = Inr k"
proof -
  have "(LEAST j. j < length bs \<and> bs ! j) = k"
    using assms by (intro Least_equality) (auto simp: first_match_def intro: leI)
  moreover have "\<exists>j<length bs. bs ! j" using assms by (auto simp: first_match_def)
  ultimately show ?thesis
    by (simp add: first_nonzero_def first_nonzero_from_spec)
qed

lemma first_nonzero_none:
  assumes "\<forall>j<length bs. \<not> bs ! j"
  shows "first_nonzero bs = Inl IndexError"
  using assms by (simp add: first_nonzero_def first_nonzero_from_spec)


lemma weighted_by_ordinals:
  "map2 (\<lambda>p b. p * real (unat b)) (map (\<lambda>b. real (fst b)) hg) (arange_uint8 (length hg)) =
   map (\<lambda>i. real (fst (hg ! i)) * real (i mod 256)) [0..<length hg]"
proof (rule nth_equalityI)
  show "length (map2 (\<lambda>p b. p * real (unat b)) (map (\<lambda>b. real (fst b)) hg)
                (arange_uint8 (length hg))) =
        length (map (\<lambda>i. real (fst (hg ! i)) * real (i mod 256)) [0..<length hg])"
    by (simp add: length_arange_uint8)
next
  fix i
  assume "i < length (map2 (\<lambda>p b. p * real (unat b)) (map (\<lambda>b. real (fst b)) hg)
                (arange_uint8 (length hg)))"
  then have i: "i < length hg" by (simp add: length_arange_uint8)
  have "real (unat (arange_uint8 (length hg) ! i)) = real (i mod 256)"
    by (simp only: arange_uint8_nth [OF i])
  then show "map2 (\<lambda>p b. p * real (unat b)) (map (\<lambda>b. real (fst b)) hg)
                (arange_uint8 (length hg)) ! i =
        map (\<lambda>i. real (fst (hg ! i)) * real (i mod 256)) [0..<length hg] ! i"
    using i by (simp add: length_arange_uint8)
qed

lemma sum_upt_nth:
  fixes f :: "nat \<Rightarrow> real"
  shows "k < n \<Longrightarrow> (\<Sum>i\<le>k. f ([0..<n] ! i)) = (\<Sum>i\<le>k. f i)"
  by (intro sum.cong refl) simp

lemma sum_upt_nth_from:
  fixes f :: "nat \<Rightarrow> real"
  shows "(\<Sum>i = k..<length [0..<n]. f ([0..<n] ! i)) = (\<Sum>i = k..<n. f i)"
  by (intro sum.cong) simp_all

lemma isodata_matches:
  fixes hg :: histogram
  defines "pmf \<equiv> map (\<lambda>b. real (fst b)) hg"
  defines "cpmfl \<equiv> cumsum pmf"
  defines "cpmfh \<equiv> rev (cumsum (rev pmf))"
  defines "binnums \<equiv> arange_uint8 (length pmf)"
  defines "l \<equiv> map2 ma_divide (cumsum (map2 (\<lambda>p b. p * real (unat b)) pmf binnums)) cpmfl"
  defines "h \<equiv> map2 ma_divide
       (rev (cumsum (map2 (\<lambda>p b. p * real (unat b)) (rev pmf) (rev binnums)))) cpmfh"
  shows "map2 isodata_match (map2 ma_mean2 l h) binnums =
         map (iso_match (\<lambda>i. i mod 256) hg) [0..<length hg]"
proof (rule nth_equalityI)
  let ?n = "length hg"
  let ?f = "\<lambda>i. real (fst (hg ! i)) * real (i mod 256)"
  let ?wl = "cumsum (map ?f [0..<?n])"
  let ?wh = "rev (cumsum (rev (map ?f [0..<?n])))"
  have lb: "length binnums = ?n" by (simp add: binnums_def pmf_def length_arange_uint8)
  have lp: "length pmf = ?n" by (simp add: pmf_def)
  have wl: "cumsum (map2 (\<lambda>p b. p * real (unat b)) pmf binnums) = ?wl"
    unfolding binnums_def pmf_def length_map weighted_by_ordinals ..
  have "map2 (\<lambda>p b. p * real (unat b)) (rev pmf) (rev binnums) =
        rev (map2 (\<lambda>p b. p * real (unat b)) pmf binnums)"
    by (rule rev_map2 [symmetric]) (simp add: lb lp)
  then have wh: "rev (cumsum (map2 (\<lambda>p b. p * real (unat b)) (rev pmf) (rev binnums))) = ?wh"
    unfolding binnums_def pmf_def length_map weighted_by_ordinals by simp
  have ll: "length l = ?n" and lh: "length h = ?n"
    unfolding l_def h_def wl wh cpmfl_def cpmfh_def
    by (simp_all add: length_cumsum lp)
  show "length (map2 isodata_match (map2 ma_mean2 l h) binnums) =
        length (map (iso_match (\<lambda>i. i mod 256) hg) [0..<?n])"
    by (simp add: ll lh lb)
  fix k
  assume "k < length (map2 isodata_match (map2 ma_mean2 l h) binnums)"
  then have k: "k < ?n" by (simp add: ll lh lb)
  have cl: "cpmfl ! k = (\<Sum>i\<le>k. real (fst (hg ! i)))"
    unfolding cpmfl_def pmf_def by (rule cumsum_map_nth [OF k])
  have ch: "cpmfh ! k = (\<Sum>i = k..<?n. real (fst (hg ! i)))"
    unfolding cpmfh_def pmf_def by (rule rev_cumsum_rev_map_nth [OF k])
  have "?wl ! k = (\<Sum>i\<le>k. ?f ([0..<?n] ! i))"
    by (rule cumsum_map_nth) (use k in simp)
  also have "\<dots> = (\<Sum>i\<le>k. ?f i)"
    by (rule sum_upt_nth [OF k])
  finally have nl: "?wl ! k = (\<Sum>i\<le>k. ?f i)" .
  have "?wh ! k = (\<Sum>i = k..<length [0..<?n]. ?f ([0..<?n] ! i))"
    by (rule rev_cumsum_rev_map_nth) (use k in simp)
  also have "\<dots> = (\<Sum>i = k..<?n. ?f i)"
    by (rule sum_upt_nth_from)
  finally have nh: "?wh ! k = (\<Sum>i = k..<?n. ?f i)" .
  have lk: "l ! k = iso_l (\<lambda>i. i mod 256) hg k"
    unfolding l_def wl iso_l_def
    by (subst map2_nth) (simp_all only: length_cumsum length_map length_upt diff_zero
        cpmfl_def lp k nl cl [unfolded cpmfl_def])
  have hk: "h ! k = iso_h (\<lambda>i. i mod 256) hg k"
    unfolding h_def wh iso_h_def
    by (subst map2_nth) (simp_all only: length_cumsum length_map length_upt diff_zero
        length_rev cpmfh_def lp k nh ch [unfolded cpmfh_def])
  have bk: "unat (binnums ! k) = k mod 256"
    unfolding binnums_def lp by (rule arange_uint8_nth [OF k])
  have "map2 isodata_match (map2 ma_mean2 l h) binnums ! k =
        isodata_match (ma_mean2 (l ! k) (h ! k)) (binnums ! k)"
    using k by (simp add: ll lh lb)
  also have "\<dots> = iso_match (\<lambda>i. i mod 256) hg k"
    unfolding isodata_match_def iso_match_def lk hk bk ..
  also have "\<dots> = map (iso_match (\<lambda>i. i mod 256) hg) [0..<?n] ! k"
    using k by simp
  finally show "map2 isodata_match (map2 ma_mean2 l h) binnums ! k =
        map (iso_match (\<lambda>i. i mod 256) hg) [0..<?n] ! k" .
qed

lemma isodata_search:
  assumes "length hg \<noteq> 1"
  shows "(first_match (iso_match (\<lambda>i. i mod 256) hg) (length hg) k \<longrightarrow>
            threshold_isodata hg = Inr (snd (hg ! k))) \<and>
         ((\<forall>j<length hg. \<not> iso_match (\<lambda>i. i mod 256) hg j) \<longrightarrow>
            threshold_isodata hg = Inl IndexError)"
proof -
  let ?ms = "map (iso_match (\<lambda>i. i mod 256) hg) [0..<length hg]"
  have ti: "threshold_isodata hg =
     (case first_nonzero ?ms of Inl e \<Rightarrow> Inl e | Inr idx \<Rightarrow> np_index (centers hg) idx)"
    unfolding threshold_isodata_def Let_def isodata_matches
    using assms by (simp add: centers_def)
  show ?thesis
  proof (intro conjI impI)
    assume fm: "first_match (iso_match (\<lambda>i. i mod 256) hg) (length hg) k"
    then have "first_match (\<lambda>j. ?ms ! j) (length ?ms) k"
      by (auto simp: first_match_def)
    then have "first_nonzero ?ms = Inr k" by (rule first_nonzero_found)
    then show "threshold_isodata hg = Inr (snd (hg ! k))"
      using fm by (simp add: ti np_index_def centers_def first_match_def)
  next
    assume "\<forall>j<length hg. \<not> iso_match (\<lambda>i. i mod 256) hg j"
    then have "first_nonzero ?ms = Inl IndexError"
      by (intro first_nonzero_none) simp
    then show "threshold_isodata hg = Inl IndexError" by (simp add: ti)
  qed
qed


lemma two_level_length: "length two_level_histogram = 257"
  by (simp add: two_level_histogram_def)

lemma two_level_nth:
  "i < 257 \<Longrightarrow> two_level_histogram ! i = (if i = 0 \<or> i = 256 then 1 else 0, real i)"
  by (simp add: two_level_histogram_def del: upt_Suc)

lemma two_level_sum:
  fixes g :: "nat \<Rightarrow> real"
  assumes "finite S" "\<forall>i\<in>S. i < 257"
  shows "(\<Sum>i\<in>S. real (fst (two_level_histogram ! i)) * g i) =
         (if 0 \<in> S then g 0 else 0) + (if 256 \<in> S then g 256 else 0)"
proof -
  have "(\<Sum>i\<in>S. real (fst (two_level_histogram ! i)) * g i) =
        (\<Sum>i\<in>S. (if i = 0 then g 0 else 0) + (if i = 256 then g 256 else 0))"
    using assms(2) by (intro sum.cong refl) (auto simp: two_level_nth)
  also have "\<dots> = (if 0 \<in> S then g 0 else 0) + (if 256 \<in> S then g 256 else 0)"
    using assms(1) by (simp add: sum.distrib)
  finally show ?thesis .
qed

lemma two_level_count:
  assumes "finite S" "\<forall>i\<in>S. i < 257"
  shows "(\<Sum>i\<in>S. real (fst (two_level_histogram ! i))) =
         (if 0 \<in> S then 1 else 0) + (if 256 \<in> S then 1 else 0)"
  using two_level_sum [OF assms, of "\<lambda>_. 1"] by simp

lemma two_level_l:
  assumes "k < 257"
  shows "iso_l ord two_level_histogram k =
         (if k = 256 then Some ((real (ord 0) + real (ord 256)) / 2) else Some (real (ord 0)))"
proof -
  have b: "\<forall>i\<in>{..k}. i < 257" using assms by auto
  show ?thesis
    unfolding iso_l_def two_level_sum [OF finite_atMost b] two_level_count [OF finite_atMost b]
    using assms by (simp add: ma_divide_def)
qed

lemma two_level_h:
  assumes "k < 257"
  shows "iso_h ord two_level_histogram k =
         (if k = 0 then Some ((real (ord 0) + real (ord 256)) / 2) else Some (real (ord 256)))"
proof -
  have b: "\<forall>i\<in>{k..<257}. i < 257" by auto
  show ?thesis
    unfolding iso_h_def two_level_length
      two_level_sum [OF finite_atLeastLessThan b] two_level_count [OF finite_atLeastLessThan b]
    using assms by (simp add: ma_divide_def)
qed

lemma np_round_of_nat: "np_round (real n) = int n"
  by (simp add: np_round_def)

lemma two_level_match_true_ordinals:
  assumes "k < 256"
  shows "iso_match (\<lambda>i. i) two_level_histogram k = (k = 128)"
proof -
  have k: "k < 257" using assms by simp
  have "np_round 64 = 64" "np_round 128 = 128"
    using np_round_of_nat [of 64] np_round_of_nat [of 128] by simp_all
  then show ?thesis
    using assms by (auto simp add: iso_match_def two_level_l [OF k] two_level_h [OF k]
        ma_mean2_def)
qed

lemma two_level_match_wrapped:
  "iso_match (\<lambda>i. i mod 256) two_level_histogram 0"
proof -
  have "np_round 0 = 0" using np_round_of_nat [of 0] by simp
  then show ?thesis
    by (simp add: iso_match_def two_level_l two_level_h ma_mean2_def)
qed



text \<open>
  C7 fails on the two-level histogram. With the bins numbered by their index, as the
  claim has them, the first bin whose means round to its index is bin 128, with centre
  128: bin 128 passes and no earlier bin does. The code numbers bin 256 as 0, finds
  its test satisfied at bin 0 and returns the centre 0.
\<close>

theorem isodata_two_level:
  "threshold_isodata two_level_histogram = Inr 0 \<and>
   iso_match (\<lambda>i. i) two_level_histogram 128 \<and>
   list_all (\<lambda>j. \<not> iso_match (\<lambda>i. i) two_level_histogram j) [0..<128] \<and>
   snd (two_level_histogram ! 128) = 128"
proof -
  have "first_match (iso_match (\<lambda>i. i mod 256) two_level_histogram)
          (length two_level_histogram) 0"
    by (simp add: first_match_def two_level_length two_level_match_wrapped)
  then have "threshold_isodata two_level_histogram = Inr (snd (two_level_histogram ! 0))"
    using isodata_search [of two_level_histogram 0] by (simp add: two_level_length)
  moreover have "list_all (\<lambda>j. \<not> iso_match (\<lambda>i. i) two_level_histogram j) [0..<128]"
    unfolding list_all_iff by (auto simp: two_level_match_true_ordinals)
  ultimately show ?thesis
    by (simp add: two_level_nth two_level_match_true_ordinals)
qed

end
